theory Spec2Isabelle
  imports Complex_Main "HOL-Library.Sublist" "HOL-Library.AList"
begin

section \<open>JavaScript values and plain objects\<close>

text \<open>
  The dashboard's shared-state module (\<^verbatim>\<open>components/main.js\<close>) is embedded function by
  function. Strings are lists of code units below 256 (ASCII and Latin-1). A plain
  JavaScript object is the list of its own enumerable string-keyed properties in insertion
  order; \<^verbatim>\<open>Object.keys\<close>, \<^verbatim>\<open>Object.values\<close> and \<^verbatim>\<open>Object.entries\<close> enumerate array-index keys
  first, in ascending numeric order, and the other keys after them in insertion order.
  Of the errors, \<open>InvalidArgument\<close> is the \<^verbatim>\<open>Error\<close> the filter constructor throws,
  \<open>TypeError\<close> the one the language throws on a missing method or property, and
  \<open>ComponentError\<close> whatever the \<^verbatim>\<open>refresh\<close> of a component throws.
\<close>

datatype error = InvalidArgument | TypeError | ComponentError

type_synonym 'v jsobj = "(string \<times> 'v) list"

definition is_digit :: "char \<Rightarrow> bool" where
  "is_digit c = (48 \<le> (of_char c :: nat) \<and> (of_char c :: nat) \<le> 57)"

definition dec_value :: "string \<Rightarrow> nat" where
  "dec_value k = fold (\<lambda>c n. 10 * n + ((of_char c :: nat) - 48)) k 0"

definition array_index :: "string \<Rightarrow> nat option" where
  \<comment> \<open>an array index is the canonical decimal numeral of an integer below \<open>2^32 - 1\<close>\<close>
  "array_index k =
     (if k \<noteq> [] \<and> list_all is_digit k \<and> (k = ''0'' \<or> hd k \<noteq> CHR ''0'')
         \<and> length k \<le> 10 \<and> dec_value k < 4294967295
      then Some (dec_value k) else None)"

definition is_index_key :: "string \<times> 'v \<Rightarrow> bool" where
  "is_index_key p = (array_index (fst p) \<noteq> None)"

definition index_of_key :: "string \<times> 'v \<Rightarrow> nat" where
  "index_of_key p = (case array_index (fst p) of Some n \<Rightarrow> n | None \<Rightarrow> 0)"

definition object_entries :: "'v jsobj \<Rightarrow> (string \<times> 'v) list" where
  "object_entries ob =
     sort_key index_of_key (filter is_index_key ob) @ filter (\<lambda>p. \<not> is_index_key p) ob"


definition object_values :: "'v jsobj \<Rightarrow> 'v list" where
  "object_values ob = map snd (object_entries ob)"

definition object_set :: "string \<Rightarrow> 'v \<Rightarrow> 'v jsobj \<Rightarrow> 'v jsobj" where
  \<comment> \<open>\<^verbatim>\<open>ob[k] = v\<close> on an object created by \<^verbatim>\<open>{}\<close>: an existing key keeps its place, a new
      key goes last; the key \<^verbatim>\<open>__proto__\<close> reaches the accessor of \<^verbatim>\<open>Object.prototype\<close> and
      creates no own property\<close>
  "object_set k v ob = (if k = ''__proto__'' then ob else AList.update k v ob)"

datatype jsval =
    JUndefined
  | JNull
  | JBool bool
  | JNum int
  | JNaN
  | JStr string
  | JArr nat "jsval list"
  | JObj nat "(string \<times> jsval) list"

text \<open>
  Arrays and objects carry the identity of the heap object they denote (the \<open>nat\<close>);
  \<^verbatim>\<open>===\<close> compares two of them by that identity only. \<open>JNaN\<close> is the one number that
  is not \<^verbatim>\<open>===\<close> to itself. Numbers are the integers and \<^verbatim>\<open>NaN\<close>; functions, symbols
  and big integers do not occur in a filter state and are left out.
\<close>

fun strict_equals :: "jsval \<Rightarrow> jsval \<Rightarrow> bool" where
  "strict_equals JUndefined JUndefined = True"
| "strict_equals JNull JNull = True"
| "strict_equals (JBool a) (JBool b) = (a = b)"
| "strict_equals (JNum a) (JNum b) = (a = b)"
| "strict_equals (JStr a) (JStr b) = (a = b)"
| "strict_equals (JArr i xs) (JArr j ys) = (i = j)"
| "strict_equals (JObj i ps) (JObj j qs) = (i = j)"
| "strict_equals x y = False"

definition same_value_zero :: "jsval \<Rightarrow> jsval \<Rightarrow> bool" where
  \<comment> \<open>the comparison of \<^verbatim>\<open>Array.prototype.includes\<close>\<close>
  "same_value_zero x y = ((x = JNaN \<and> y = JNaN) \<or> strict_equals x y)"

definition array_includes :: "jsval list \<Rightarrow> jsval \<Rightarrow> bool" where
  "array_includes xs v = list_ex (\<lambda>x. same_value_zero x v) xs"

section \<open>Reports and report filters\<close>

record report =
  report_id :: nat
  latitude :: real
  longitude :: real
  parking_time :: string
  parking_duration :: string
  issues :: "string list"
  comments :: "string option"

text \<open>
  \<^verbatim>\<open>parseParkingTime\<close> (\<^verbatim>\<open>api_tools.js\<close>) and luxon's \<^verbatim>\<open>DateTime.weekday\<close> and
  \<^verbatim>\<open>Interval.contains\<close> are imported by the module and taken as parameters. An invalid
  \<^verbatim>\<open>DateTime\<close> has weekday \<^verbatim>\<open>NaN\<close>, which no entry of the weekday table equals; any number
  outside \<open>1..7\<close> stands for it. A luxon \<^verbatim>\<open>Interval\<close> is an object: \<open>contains L x dt\<close> is
  \<open>None\<close> when the object \<open>x\<close> has no method \<^verbatim>\<open>contains\<close>, and the method's result otherwise.
\<close>

record 'dt luxon =
  parseParkingTime :: "string \<Rightarrow> 'dt"
  weekday :: "'dt \<Rightarrow> nat"
  contains :: "jsval \<Rightarrow> 'dt \<Rightarrow> bool option"

datatype report_filter =
    ReportFilter "jsval list"
  | IssuesFilter "jsval list"
  | DateRangeFilter "jsval list"
  | WeekDayPeriodFilter "string list"
  | ParkingDurationFilter "jsval list"


fun filterKey :: "report_filter \<Rightarrow> string option" where
  "filterKey (ReportFilter s) = None"
| "filterKey (IssuesFilter s) = Some ''issues''"
| "filterKey (DateRangeFilter s) = Some ''date_range''"
| "filterKey (WeekDayPeriodFilter s) = Some ''weekday_period''"
| "filterKey (ParkingDurationFilter s) = Some ''parking_duration''"

definition toLowerCase_char :: "char \<Rightarrow> char" where
  "toLowerCase_char c =
     (let n = (of_char c :: nat)
      in if (65 \<le> n \<and> n \<le> 90) \<or> (192 \<le> n \<and> n \<le> 222 \<and> n \<noteq> 215)
         then char_of (n + 32) else c)"

definition toLowerCase :: "string \<Rightarrow> string" where
  "toLowerCase s = map toLowerCase_char s"

fun lower_all :: "jsval list \<Rightarrow> error + string list" where
  \<comment> \<open>\<^verbatim>\<open>state.map(x => x.toLowerCase())\<close>: only a string has the method\<close>
  "lower_all [] = Inr []"
| "lower_all (JStr s # xs) =
     (case lower_all xs of Inl e \<Rightarrow> Inl e | Inr ys \<Rightarrow> Inr (toLowerCase s # ys))"
| "lower_all (x # xs) = Inl TypeError"

fun ReportFilter_new :: "jsval \<Rightarrow> error + jsval list" where
  \<comment> \<open>the base constructor: \<^verbatim>\<open>state instanceof Array\<close> or the error\<close>
  "ReportFilter_new (JArr i xs) = Inr xs"
| "ReportFilter_new s = Inl InvalidArgument"

definition IssuesFilter_new :: "jsval \<Rightarrow> error + report_filter" where
  "IssuesFilter_new s = (case ReportFilter_new s of Inl e \<Rightarrow> Inl e | Inr xs \<Rightarrow> Inr (IssuesFilter xs))"

definition DateRangeFilter_new :: "jsval \<Rightarrow> error + report_filter" where
  "DateRangeFilter_new s =
     (case ReportFilter_new s of Inl e \<Rightarrow> Inl e | Inr xs \<Rightarrow> Inr (DateRangeFilter xs))"

definition WeekDayPeriodFilter_new :: "jsval \<Rightarrow> error + report_filter" where
  "WeekDayPeriodFilter_new s =
     (case ReportFilter_new s of
        Inl e \<Rightarrow> Inl e
      | Inr xs \<Rightarrow> (case lower_all xs of Inl e \<Rightarrow> Inl e | Inr ys \<Rightarrow> Inr (WeekDayPeriodFilter ys)))"

definition ParkingDurationFilter_new :: "jsval \<Rightarrow> error + report_filter" where
  "ParkingDurationFilter_new s =
     (case ReportFilter_new s of Inl e \<Rightarrow> Inl e | Inr xs \<Rightarrow> Inr (ParkingDurationFilter xs))"

definition dayIndex :: "string \<Rightarrow> nat option" where
  "dayIndex = map_of
     [(''monday'', 1), (''tuesday'', 2), (''wednesday'', 3), (''thursday'', 4),
      (''friday'', 5), (''saturday'', 6), (''sunday'', 7)]"

fun call_contains :: "'dt luxon \<Rightarrow> jsval \<Rightarrow> 'dt \<Rightarrow> error + bool" where
  \<comment> \<open>\<^verbatim>\<open>interval.contains(dt)\<close>: \<^verbatim>\<open>null\<close>, \<^verbatim>\<open>undefined\<close>, a primitive or an array has no such
      method, and the call throws\<close>
  "call_contains L (JObj i ps) dt =
     (case contains L (JObj i ps) dt of None \<Rightarrow> Inl TypeError | Some b \<Rightarrow> Inr b)"
| "call_contains L x dt = Inl TypeError"

fun any_contains :: "'dt luxon \<Rightarrow> jsval list \<Rightarrow> 'dt \<Rightarrow> error + bool" where
  \<comment> \<open>the loop of \<^verbatim>\<open>DateRangeFilter.test\<close>\<close>
  "any_contains L [] dt = Inr False"
| "any_contains L (interval # rest) dt =
     (case call_contains L interval dt of
        Inl e \<Rightarrow> Inl e
      | Inr b \<Rightarrow> if b then Inr True else any_contains L rest dt)"

fun test :: "'dt luxon \<Rightarrow> report_filter \<Rightarrow> report \<Rightarrow> error + bool" where
  \<comment> \<open>the base class returns \<^verbatim>\<open>undefined\<close>, which \<^verbatim>\<open>Array.prototype.filter\<close> reads as false\<close>
  "test L (ReportFilter s) r = Inr False"
| "test L (IssuesFilter s) r = Inr (list_ex (\<lambda>v. array_includes s (JStr v)) (issues r))"
| "test L (DateRangeFilter s) r =
     (let dt = parseParkingTime L (parking_time r) in any_contains L s dt)"
| "test L (WeekDayPeriodFilter s) r =
     (let dt = parseParkingTime L (parking_time r);
          inclWeekdays = map dayIndex s
      in Inr (Some (weekday L dt) \<in> set inclWeekdays))"
| "test L (ParkingDurationFilter s) r = Inr (array_includes s (JStr (parking_duration r)))"

fun array_filter :: "('a \<Rightarrow> error + bool) \<Rightarrow> 'a list \<Rightarrow> error + 'a list" where
  \<comment> \<open>\<^verbatim>\<open>Array.prototype.filter\<close> with a callback that may throw: the elements are tested in
      order and the first throw ends the call\<close>
  "array_filter t [] = Inr []"
| "array_filter t (x # xs) =
     (case t x of
        Inl e \<Rightarrow> Inl e
      | Inr b \<Rightarrow> (case array_filter t xs of
                   Inl e \<Rightarrow> Inl e
                 | Inr ys \<Rightarrow> Inr (if b then x # ys else ys)))"

subsection \<open>Comparing filter states\<close>

text \<open>
  \<^verbatim>\<open>stateEquals\<close> and \<^verbatim>\<open>deepEquals\<close> of the base class. \<^verbatim>\<open>Object.keys\<close> throws on
  \<^verbatim>\<open>null\<close> and \<^verbatim>\<open>undefined\<close>. The operator \<^verbatim>\<open>in\<close> also finds inherited properties; their
  values are functions and prototype objects, which are \<^verbatim>\<open>!==\<close> to every value of
  \<open>jsval\<close>, and both exits of the loop return false, so the model reads own properties
  (and an array's \<^verbatim>\<open>length\<close>) only.
\<close>

fun is_Array :: "jsval \<Rightarrow> bool" where
  "is_Array (JArr i xs) = True"
| "is_Array s = False"

















section \<open>The shared state\<close>

text \<open>
  The store keeps a reference to the filter mapping it was given, so filter mappings live
  in an explicit heap of objects and \<open>priv_filters\<close> (the field \<^verbatim>\<open>_filters\<close>) is an address.
  A component is known by its root identifier and by its identity as an object.
  The constructor reads \<^verbatim>\<open>data.submissions\<close> and logs it to the console outside production;
  the log, the page elements a \<^verbatim>\<open>Component\<close> appends and its analytics helper are not part
  of the store and are not embedded. The \<^verbatim>\<open>refresh\<close> methods of the components are
  overrides written elsewhere; they are a parameter that tells, for a component and the
  store it reads, whether the call returns (\<open>None\<close>, as the base method does) or throws.
  A call of \<^verbatim>\<open>module.refresh()\<close> is recorded with the component called and the store it
  reads. An exception leaves the assignments made before it in place, so the setter
  returns the store it leaves behind, the calls it made and what it threw.
\<close>

type_synonym addr = nat

record heap =
  cells :: "addr \<Rightarrow> report_filter jsobj"
  next_free :: addr

record component =
  root_id :: string
  obj_id :: nat

record shared_state =
  components :: "component jsobj"
  priv_filters :: addr
  response_data :: "report list"
  priv_display_data :: "report list"
  priv_router :: "nat option"

type_synonym refresh_method = "component \<Rightarrow> shared_state \<Rightarrow> error option"

record outcome =
  store :: shared_state
  refreshed :: "(component \<times> shared_state) list"
  thrown :: "error option"

fun replace_first :: "char \<Rightarrow> char \<Rightarrow> string \<Rightarrow> string" where
  \<comment> \<open>\<^verbatim>\<open>String.prototype.replace\<close> with a string pattern replaces the first occurrence only\<close>
  "replace_first a b [] = []"
| "replace_first a b (c # cs) = (if c = a then b # cs else c # replace_first a b cs)"

definition elementIdToComponentKey :: "string \<Rightarrow> string" where
  "elementIdToComponentKey ident = replace_first (CHR ''-'') (CHR ''_'') ident"

definition SharedState_new :: "heap \<Rightarrow> report list \<Rightarrow> shared_state \<times> heap" where
  \<comment> \<open>the constructor allocates the empty filter mapping \<^verbatim>\<open>{}\<close>\<close>
  "SharedState_new h submissions =
     (\<lparr>components = [], priv_filters = next_free h, response_data = submissions,
       priv_display_data = submissions, priv_router = None\<rparr>,
      h\<lparr>cells := (cells h)(next_free h := []), next_free := Suc (next_free h)\<rparr>)"

definition registerComponent :: "component \<Rightarrow> shared_state \<Rightarrow> string \<times> shared_state" where
  "registerComponent c st =
     (let key = elementIdToComponentKey (root_id c)
      in (key, st\<lparr>components := object_set key c (components st)\<rparr>))"

fun apply_each ::
  "'dt luxon \<Rightarrow> (string \<times> report_filter) list \<Rightarrow> report list \<Rightarrow> error + report list" where
  \<comment> \<open>the loop over \<^verbatim>\<open>filter_list\<close>\<close>
  "apply_each L [] return_data = Inr return_data"
| "apply_each L ((key, reportFilter) # rest) return_data =
     (case array_filter (\<lambda>r. test L reportFilter r) return_data of
        Inl e \<Rightarrow> Inl e
      | Inr kept \<Rightarrow> apply_each L rest kept)"

definition applyFilters ::
  "'dt luxon \<Rightarrow> shared_state \<Rightarrow> report_filter jsobj \<Rightarrow> error + report list" where
  "applyFilters L st filters =
     (let filter_list = object_entries filters
      in if length filter_list > 0
         then apply_each L filter_list (response_data st)
         else Inr (response_data st))"

fun refresh_each ::
  "refresh_method \<Rightarrow> shared_state \<Rightarrow> component list
     \<Rightarrow> (component \<times> shared_state) list \<times> error option" where
  \<comment> \<open>the loop of \<^verbatim>\<open>refresh\<close>: no handler, so the first call that throws is the last\<close>
  "refresh_each R st [] = ([], None)"
| "refresh_each R st (c # rest) =
     (case R c st of
        Some e \<Rightarrow> ([(c, st)], Some e)
      | None \<Rightarrow> (case refresh_each R st rest of
                   (calls, x) \<Rightarrow> ((c, st) # calls, x)))"

definition refresh ::
  "refresh_method \<Rightarrow> shared_state \<Rightarrow> (component \<times> shared_state) list \<times> error option" where
  "refresh R st = refresh_each R st (object_values (components st))"

definition get_filters :: "shared_state \<Rightarrow> addr" where
  "get_filters st = priv_filters st"

definition set_filters ::
  "'dt luxon \<Rightarrow> refresh_method \<Rightarrow> heap \<Rightarrow> addr \<Rightarrow> shared_state \<Rightarrow> outcome" where
  "set_filters L R h f st =
     (let st1 = st\<lparr>priv_filters := f\<rparr>
      in case applyFilters L st1 (cells h (priv_filters st1)) of
           Inl e \<Rightarrow> \<lparr>store = st1, refreshed = [], thrown = Some e\<rparr>
         | Inr d \<Rightarrow>
             (let st2 = st1\<lparr>priv_display_data := d\<rparr>
              in case refresh R st2 of
                   (calls, x) \<Rightarrow> \<lparr>store = st2, refreshed = calls, thrown = x\<rparr>))"

definition get_router :: "shared_state \<Rightarrow> nat option" where
  "get_router st = priv_router st"

definition set_router :: "nat option \<Rightarrow> shared_state \<Rightarrow> shared_state" where
  "set_router router st = st\<lparr>priv_router := router\<rparr>"

definition display_data :: "shared_state \<Rightarrow> report list" where
  "display_data st = priv_display_data st"

subsection \<open>Callers of the store\<close>


definition property_assign :: "addr \<Rightarrow> string \<Rightarrow> report_filter \<Rightarrow> heap \<Rightarrow> heap" where
  "property_assign a k v h = h\<lparr>cells := (cells h)(a := object_set k v (cells h a))\<rparr>"

definition component_key :: "component \<Rightarrow> string" where
  "component_key c = elementIdToComponentKey (root_id c)"

subsection \<open>Example data\<close>

text \<open>
  A parser that reads the weekday off the first three letters of an HTTP date such as
  \<^verbatim>\<open>Fri, 05 Jan 2024 09:22:06 GMT\<close> and knows no interval, a store with an empty registry,
  and two behaviours of the components' \<^verbatim>\<open>refresh\<close>.
\<close>

definition example_luxon :: "string luxon" where
  "example_luxon =
     \<lparr>parseParkingTime = (\<lambda>s. s),
      weekday = (\<lambda>s. case map_of [(''Mon'', 1), (''Tue'', 2), (''Wed'', 3), (''Thu'', 4),
                                     (''Fri'', 5), (''Sat'', 6), (''Sun'', 7)] (take 3 s)
                      of Some n \<Rightarrow> n | None \<Rightarrow> 0),
      contains = (\<lambda>x s. None)\<rparr>"

definition base_refresh :: refresh_method where
  \<comment> \<open>\<^verbatim>\<open>Component.refresh\<close>, which does nothing\<close>
  "base_refresh c st = None"


definition example_report :: "nat \<Rightarrow> string \<Rightarrow> string \<Rightarrow> string list \<Rightarrow> report" where
  "example_report n t d is =
     \<lparr>report_id = n, latitude = 0, longitude = 0, parking_time = t, parking_duration = d,
      issues = is, comments = None\<rparr>"

definition example_store :: "report list \<Rightarrow> shared_state" where
  "example_store D =
     \<lparr>components = [], priv_filters = 0, response_data = D, priv_display_data = D,
      priv_router = None\<rparr>"

section \<open>Plain objects\<close>

lemma set_object_entries: "set (object_entries ob) = set ob"
  by (auto simp: object_entries_def)

lemma object_entries_plain:
  "list_all (\<lambda>p. array_index (fst p) = None) ob \<Longrightarrow> object_entries ob = ob"
proof -
  assume a: "list_all (\<lambda>p. array_index (fst p) = None) ob"
  then have "filter is_index_key ob = []" and "filter (\<lambda>p. \<not> is_index_key p) ob = ob"
    by (simp_all add: is_index_key_def list_all_iff filter_empty_conv filter_id_conv)
  then show ?thesis by (simp add: object_entries_def)
qed

lemma array_index_examples:
  "array_index ''map'' = None" "array_index ''1'' = Some 1" "array_index ''issue_chart'' = None"
  "array_index ''issues'' = None" "array_index ''parking_duration'' = None"
  "array_index ''date_range'' = None"
  by (simp_all add: array_index_def is_digit_def dec_value_def)

section \<open>Filter composition\<close>

lemma array_filter_Inr:
  "array_filter t xs = Inr ys \<Longrightarrow> ys = filter (\<lambda>x. t x = Inr True) xs"
  by (induction xs arbitrary: ys) (auto split: sum.splits if_splits)

lemma array_filter_total:
  "\<forall>x \<in> set xs. \<exists>b. t x = Inr b \<Longrightarrow> array_filter t xs = Inr (filter (\<lambda>x. t x = Inr True) xs)"
  by (induction xs) auto

lemma apply_each_Inr:
  "apply_each L fs xs = Inr ys
   \<Longrightarrow> ys = filter (\<lambda>r. \<forall>p \<in> set fs. test L (snd p) r = Inr True) xs"
proof (induction fs arbitrary: xs)
  case Nil
  then show ?case by simp
next
  case (Cons p fs)
  obtain k f where p: "p = (k, f)" by (cases p)
  from Cons.prems obtain kept where
    kept: "array_filter (\<lambda>r. test L f r) xs = Inr kept" and rest: "apply_each L fs kept = Inr ys"
    by (auto simp: p split: sum.splits)
  have "kept = filter (\<lambda>r. test L f r = Inr True) xs"
    using kept by (rule array_filter_Inr)
  moreover have "ys = filter (\<lambda>r. \<forall>p \<in> set fs. test L (snd p) r = Inr True) kept"
    using rest by (rule Cons.IH)
  ultimately show ?case by (auto simp: p intro: filter_cong)
qed

lemma apply_each_total:
  "\<forall>p \<in> set fs. \<forall>r \<in> set xs. \<exists>b. test L (snd p) r = Inr b
   \<Longrightarrow> \<exists>ys. apply_each L fs xs = Inr ys"
proof (induction fs arbitrary: xs)
  case Nil
  show ?case by simp
next
  case (Cons p fs)
  obtain k f where p: "p = (k, f)" by (cases p)
  have "\<forall>r \<in> set xs. \<exists>b. test L f r = Inr b" using Cons.prems by (simp add: p)
  then have kept: "array_filter (\<lambda>r. test L f r) xs = Inr (filter (\<lambda>r. test L f r = Inr True) xs)"
    by (rule array_filter_total)
  have "\<forall>p \<in> set fs. \<forall>r \<in> set (filter (\<lambda>r. test L f r = Inr True) xs). \<exists>b. test L (snd p) r = Inr b"
    using Cons.prems by simp
  then obtain ys where "apply_each L fs (filter (\<lambda>r. test L f r = Inr True) xs) = Inr ys"
    using Cons.IH by blast
  then show ?case by (simp add: p kept)
qed

lemma applyFilters_Inr:
  assumes "applyFilters L st F = Inr res"
  shows "res = filter (\<lambda>r. \<forall>p \<in> set F. test L (snd p) r = Inr True) (response_data st)"
proof (cases "object_entries F = []")
  case True
  then have "set F = {}" using set_object_entries [of F] by simp
  then show ?thesis using assms True by (simp add: applyFilters_def)
next
  case False
  then have "apply_each L (object_entries F) (response_data st) = Inr res"
    using assms by (simp add: applyFilters_def)
  then show ?thesis using apply_each_Inr [of L "object_entries F"] by (simp add: set_object_entries)
qed

lemma applyFilters_total:
  assumes "\<forall>p \<in> set F. \<forall>r \<in> set (response_data st). \<exists>b. test L (snd p) r = Inr b"
  shows "\<exists>res. applyFilters L st F = Inr res"
proof -
  have "\<exists>ys. apply_each L (object_entries F) (response_data st) = Inr ys"
    using assms by (intro apply_each_total) (simp add: set_object_entries)
  then show ?thesis by (auto simp: applyFilters_def Let_def)
qed

lemma applyFilters_store:
  "applyFilters L (st\<lparr>priv_filters := f\<rparr>) F = applyFilters L st F"
  by (simp add: applyFilters_def Let_def)

lemma set_filters_throw:
  "applyFilters L st (cells h f) = Inl e
   \<Longrightarrow> set_filters L R h f st = \<lparr>store = st\<lparr>priv_filters := f\<rparr>, refreshed = [], thrown = Some e\<rparr>"
  by (simp add: set_filters_def applyFilters_store)

lemma set_filters_return:
  "applyFilters L st (cells h f) = Inr d
   \<Longrightarrow> store (set_filters L R h f st) = st\<lparr>priv_filters := f, priv_display_data := d\<rparr>
     \<and> (refreshed (set_filters L R h f st), thrown (set_filters L R h f st))
         = refresh R (st\<lparr>priv_filters := f, priv_display_data := d\<rparr>)"
  by (simp add: set_filters_def applyFilters_store Let_def split: prod.splits)

text \<open>
  C5. Whatever \<^verbatim>\<open>applyFilters\<close> returns is a subsequence of the dataset: every report of the
  result is a report of the dataset, and the reports keep their relative order and
  multiplicity. It returns when no test throws on a report of the dataset.
\<close>

theorem applyFilters_subseq:
  "(applyFilters L st F = Inr res \<longrightarrow> subseq res (response_data st))
   \<and> ((\<forall>p \<in> set F. \<forall>r \<in> set (response_data st). \<exists>b. test L (snd p) r = Inr b)
        \<longrightarrow> (\<exists>res. applyFilters L st F = Inr res \<and> subseq res (response_data st)))"
proof -
  have sub: "subseq res (response_data st)" if "applyFilters L st F = Inr res" for res
    using applyFilters_Inr [OF that] by simp
  then show ?thesis using applyFilters_total [of F st L] by blast
qed

text \<open>
  Two reports and an issues filter: the result is the first report.
\<close>

theorem applyFilters_subseq_witness:
  "applyFilters example_luxon
     (example_store [example_report 1 ''Sat, 06 Jan 2024 09:22:06 GMT'' ''hours'' [''full''],
                     example_report 3 ''Fri, 05 Jan 2024 09:22:06 GMT'' ''minutes'' [''damaged'']])
     [(''issues'', IssuesFilter [JStr ''full''])]
     = Inr [example_report 1 ''Sat, 06 Jan 2024 09:22:06 GMT'' ''hours'' [''full'']]
   \<and> subseq [example_report 1 ''Sat, 06 Jan 2024 09:22:06 GMT'' ''hours'' [''full'']]
       [example_report 1 ''Sat, 06 Jan 2024 09:22:06 GMT'' ''hours'' [''full''],
        example_report 3 ''Fri, 05 Jan 2024 09:22:06 GMT'' ''minutes'' [''damaged'']]"
proof -
  let ?st = "example_store [example_report 1 ''Sat, 06 Jan 2024 09:22:06 GMT'' ''hours'' [''full''],
                     example_report 3 ''Fri, 05 Jan 2024 09:22:06 GMT'' ''minutes'' [''damaged'']]"
  let ?F = "[(''issues'', IssuesFilter [JStr ''full''])]"
  have run: "applyFilters example_luxon ?st ?F
      = Inr [example_report 1 ''Sat, 06 Jan 2024 09:22:06 GMT'' ''hours'' [''full'']]"
    by (simp add: applyFilters_def object_entries_plain array_index_examples example_store_def
        example_report_def array_includes_def same_value_zero_def)
  then show ?thesis
    using applyFilters_subseq
      [of example_luxon ?st ?F "[example_report 1 ''Sat, 06 Jan 2024 09:22:06 GMT'' ''hours'' [''full'']]"]
    by (simp add: example_store_def)
qed

text \<open>
  C6. With the empty filter mapping \<^verbatim>\<open>{}\<close>, \<^verbatim>\<open>applyFilters\<close> returns the dataset unchanged, in
  the same order.
\<close>

theorem applyFilters_empty:
  "applyFilters L st [] = Inr (response_data st)"
  by (simp add: applyFilters_def object_entries_def)

text \<open>
  C4, as stated, fails on the insertion order: on one report, the mapping with an empty
  parking-duration filter first and a date-range filter holding \<^verbatim>\<open>null\<close> second gives the
  empty list, since the second filter tests no report; with the keys inserted the other way
  round, \<^verbatim>\<open>null.contains\<close> throws.
\<close>

theorem applyFilters_order_dependent:
  "applyFilters example_luxon
     (example_store [example_report 1 ''Sat, 06 Jan 2024 09:22:06 GMT'' ''hours'' [''full'']])
     [(''parking_duration'', ParkingDurationFilter []), (''date_range'', DateRangeFilter [JNull])]
     = Inr []
   \<and> applyFilters example_luxon
     (example_store [example_report 1 ''Sat, 06 Jan 2024 09:22:06 GMT'' ''hours'' [''full'']])
     [(''date_range'', DateRangeFilter [JNull]), (''parking_duration'', ParkingDurationFilter [])]
     = Inl TypeError"
  by (simp add: applyFilters_def object_entries_plain array_index_examples example_store_def
      array_includes_def)

text \<open>
  C4, amended. Whenever \<^verbatim>\<open>applyFilters\<close> returns, it has kept exactly the reports that every
  filter of the mapping accepts. It returns, for every insertion order of the keys and with
  the same result, when no test throws on a report of the dataset; and two insertion orders
  for which it returns give the same result.
\<close>

theorem applyFilters_conjunction:
  "(applyFilters L st F = Inr res
      \<longrightarrow> res = filter (\<lambda>r. \<forall>p \<in> set F. test L (snd p) r = Inr True) (response_data st))
   \<and> ((\<forall>p \<in> set F. \<forall>r \<in> set (response_data st). \<exists>b. test L (snd p) r = Inr b) \<and> set F' = set F
        \<longrightarrow> (\<exists>res. applyFilters L st F = Inr res \<and> applyFilters L st F' = Inr res))
   \<and> (set F' = set F \<and> applyFilters L st F = Inr res \<and> applyFilters L st F' = Inr res'
        \<longrightarrow> res' = res)"
proof -
  have same: "res' = res"
    if "set F' = set F" "applyFilters L st F = Inr res" "applyFilters L st F' = Inr res'"
    for res res'
    using applyFilters_Inr [OF that(2)] applyFilters_Inr [OF that(3)] that(1) by simp
  have both: "\<exists>res. applyFilters L st F = Inr res \<and> applyFilters L st F' = Inr res"
    if t: "\<forall>p \<in> set F. \<forall>r \<in> set (response_data st). \<exists>b. test L (snd p) r = Inr b"
      and s: "set F' = set F"
  proof -
    obtain res where r: "applyFilters L st F = Inr res"
      using applyFilters_total [OF t] by blast
    obtain res' where r': "applyFilters L st F' = Inr res'"
      using applyFilters_total [of F' st L] t s by auto
    show ?thesis using same [OF s r r'] r r' by simp
  qed
  show ?thesis using applyFilters_Inr [of L st F res] both same by blast
qed

text \<open>
  Two filters over three reports, inserted in both orders: one report passes both.
\<close>

theorem applyFilters_conjunction_witness:
  "applyFilters example_luxon
     (example_store [example_report 1 ''Sat, 06 Jan 2024 09:22:06 GMT'' ''hours'' [''full''],
                     example_report 2 ''Wed, 03 Jan 2024 09:22:06 GMT'' ''minutes'' [''full'', ''other''],
                     example_report 3 ''Fri, 05 Jan 2024 09:22:06 GMT'' ''minutes'' [''damaged'']])
     [(''parking_duration'', ParkingDurationFilter [JStr ''minutes'']),
      (''issues'', IssuesFilter [JStr ''full''])]
   = Inr [example_report 2 ''Wed, 03 Jan 2024 09:22:06 GMT'' ''minutes'' [''full'', ''other'']]
   \<and> applyFilters example_luxon
     (example_store [example_report 1 ''Sat, 06 Jan 2024 09:22:06 GMT'' ''hours'' [''full''],
                     example_report 2 ''Wed, 03 Jan 2024 09:22:06 GMT'' ''minutes'' [''full'', ''other''],
                     example_report 3 ''Fri, 05 Jan 2024 09:22:06 GMT'' ''minutes'' [''damaged'']])
     [(''issues'', IssuesFilter [JStr ''full'']),
      (''parking_duration'', ParkingDurationFilter [JStr ''minutes''])]
   = Inr [example_report 2 ''Wed, 03 Jan 2024 09:22:06 GMT'' ''minutes'' [''full'', ''other'']]"
proof -
  let ?st = "example_store [example_report 1 ''Sat, 06 Jan 2024 09:22:06 GMT'' ''hours'' [''full''],
                     example_report 2 ''Wed, 03 Jan 2024 09:22:06 GMT'' ''minutes'' [''full'', ''other''],
                     example_report 3 ''Fri, 05 Jan 2024 09:22:06 GMT'' ''minutes'' [''damaged'']]"
  let ?F = "[(''issues'', IssuesFilter [JStr ''full'']),
             (''parking_duration'', ParkingDurationFilter [JStr ''minutes''])]"
  let ?F' = "[(''parking_duration'', ParkingDurationFilter [JStr ''minutes'']),
              (''issues'', IssuesFilter [JStr ''full''])]"
  let ?res = "[example_report 2 ''Wed, 03 Jan 2024 09:22:06 GMT'' ''minutes'' [''full'', ''other'']]"
  have returns: "\<forall>p \<in> set ?F. \<forall>r \<in> set (response_data ?st). \<exists>b. test example_luxon (snd p) r = Inr b"
    by simp
  have same: "set ?F' = set ?F" by auto
  have run: "applyFilters example_luxon ?st ?F = Inr ?res"
    by (simp add: applyFilters_def object_entries_plain array_index_examples example_store_def
        example_report_def array_includes_def same_value_zero_def)
  from applyFilters_conjunction [of example_luxon ?st ?F ?res ?F' ?res] returns same
  obtain res where "applyFilters example_luxon ?st ?F = Inr res"
    and "applyFilters example_luxon ?st ?F' = Inr res"
    by blast
  then show ?thesis using run by simp
qed

section \<open>Constructing filters\<close>

lemma lower_all_error: "lower_all xs = Inl e \<Longrightarrow> e = TypeError"
  by (induction xs arbitrary: e rule: lower_all.induct) (auto split: sum.splits)

lemma lower_all_strings: "lower_all (map JStr xs) = Inr (map toLowerCase xs)"
  by (induction xs) simp_all

lemma toLowerCase_weekend:
  "toLowerCase ''Saturday'' = ''saturday''" "toLowerCase ''Sunday'' = ''sunday''"
  "toLowerCase ''SATURDAY'' = ''saturday''" "toLowerCase ''SUNDAY'' = ''sunday''"
  "toLowerCase ''saturday'' = ''saturday''" "toLowerCase ''sunday'' = ''sunday''"
  by code_simp+

text \<open>
  C7. Each of the four constructors raises the error of the base class, InvalidArgument,
  exactly when its argument is not an array. A constructor is a function of its argument
  alone: it takes no store and no heap of filter mappings and returns none, so a failed
  construction leaves every store as it was. (\<^verbatim>\<open>WeekDayPeriodFilter\<close> given an array with
  an element that is not a string fails with a TypeError instead, from \<^verbatim>\<open>toLowerCase\<close>.)
\<close>

theorem constructor_InvalidArgument:
  "(IssuesFilter_new s = Inl InvalidArgument \<longleftrightarrow> \<not> is_Array s)
   \<and> (DateRangeFilter_new s = Inl InvalidArgument \<longleftrightarrow> \<not> is_Array s)
   \<and> (WeekDayPeriodFilter_new s = Inl InvalidArgument \<longleftrightarrow> \<not> is_Array s)
   \<and> (ParkingDurationFilter_new s = Inl InvalidArgument \<longleftrightarrow> \<not> is_Array s)"
  by (cases s)
     (auto simp: IssuesFilter_new_def DateRangeFilter_new_def WeekDayPeriodFilter_new_def
        ParkingDurationFilter_new_def split: sum.splits dest: lower_all_error)

text \<open>
  C8. The filter built from \<^verbatim>\<open>["Saturday","Sunday"]\<close> accepts a report whose parking time
  has weekday 6 (a Saturday) and rejects one with weekday 3 (a Wednesday). Two lists of
  names with the same lower-case forms build the same filter, so the spelling
  \<^verbatim>\<open>SATURDAY\<close> behaves as \<^verbatim>\<open>saturday\<close> does.
\<close>

theorem WeekDayPeriodFilter_weekend:
  "WeekDayPeriodFilter_new (JArr i [JStr ''Saturday'', JStr ''Sunday''])
     = Inr (WeekDayPeriodFilter [''saturday'', ''sunday''])
   \<and> (weekday L (parseParkingTime L (parking_time r)) = 6
        \<longrightarrow> test L (WeekDayPeriodFilter [''saturday'', ''sunday'']) r = Inr True)
   \<and> (weekday L (parseParkingTime L (parking_time r)) = 3
        \<longrightarrow> test L (WeekDayPeriodFilter [''saturday'', ''sunday'']) r = Inr False)
   \<and> (map toLowerCase xs = map toLowerCase ys
        \<longrightarrow> WeekDayPeriodFilter_new (JArr j (map JStr xs))
            = WeekDayPeriodFilter_new (JArr k (map JStr ys)))
   \<and> WeekDayPeriodFilter_new (JArr j [JStr ''SATURDAY'', JStr ''SUNDAY''])
     = WeekDayPeriodFilter_new (JArr k [JStr ''saturday'', JStr ''sunday''])"
  by (simp add: WeekDayPeriodFilter_new_def lower_all_strings toLowerCase_weekend dayIndex_def)

text \<open>
  A Saturday report is accepted, a Wednesday report rejected, and mixed spellings build
  the same filter.
\<close>

theorem WeekDayPeriodFilter_weekend_witness:
  "test example_luxon (WeekDayPeriodFilter [''saturday'', ''sunday''])
     (example_report 1 ''Sat, 06 Jan 2024 09:22:06 GMT'' ''hours'' [''full'']) = Inr True
   \<and> test example_luxon (WeekDayPeriodFilter [''saturday'', ''sunday''])
     (example_report 2 ''Wed, 03 Jan 2024 09:22:06 GMT'' ''minutes'' [''full'', ''other'']) = Inr False
   \<and> WeekDayPeriodFilter_new (JArr 0 (map JStr [''Saturday'', ''SUNDAY'']))
     = WeekDayPeriodFilter_new (JArr 1 (map JStr [''SATURDAY'', ''Sunday'']))"
  using WeekDayPeriodFilter_weekend
      [of 0 example_luxon "example_report 1 ''Sat, 06 Jan 2024 09:22:06 GMT'' ''hours'' [''full'']"
          "[''Saturday'', ''SUNDAY'']" "[''SATURDAY'', ''Sunday'']" 0 1]
    WeekDayPeriodFilter_weekend
      [of 0 example_luxon
          "example_report 2 ''Wed, 03 Jan 2024 09:22:06 GMT'' ''minutes'' [''full'', ''other'']"
          "[]" "[]" 0 1]
  by (simp add: example_luxon_def example_report_def toLowerCase_weekend)

text \<open>
  C10, as stated, fails on the mapping: with a date-range filter holding \<^verbatim>\<open>null\<close> inserted
  before an issues filter with no issue, \<^verbatim>\<open>applyFilters\<close> on one report throws instead of
  returning the empty list, and the setter leaves the display dataset as it was.
\<close>

theorem empty_state_after_throwing_filter:
  "applyFilters example_luxon
     (example_store [example_report 1 ''Sat, 06 Jan 2024 09:22:06 GMT'' ''hours'' [''full'']])
     [(''date_range'', DateRangeFilter [JNull]), (''issues'', IssuesFilter [])]
     = Inl TypeError
   \<and> display_data (store (set_filters example_luxon base_refresh
        \<lparr>cells = (\<lambda>a. [(''date_range'', DateRangeFilter [JNull]), (''issues'', IssuesFilter [])]),
         next_free = 1\<rparr> 0
        (example_store [example_report 1 ''Sat, 06 Jan 2024 09:22:06 GMT'' ''hours'' [''full'']])))
     = [example_report 1 ''Sat, 06 Jan 2024 09:22:06 GMT'' ''hours'' [''full'']]"
proof -
  let ?st = "example_store [example_report 1 ''Sat, 06 Jan 2024 09:22:06 GMT'' ''hours'' [''full'']]"
  let ?F = "[(''date_range'', DateRangeFilter [JNull]), (''issues'', IssuesFilter [])]"
  have run: "applyFilters example_luxon ?st ?F = Inl TypeError"
    by (simp add: applyFilters_def object_entries_plain array_index_examples example_store_def)
  then have "applyFilters example_luxon ?st (cells \<lparr>cells = (\<lambda>a. ?F), next_free = 1\<rparr> 0) = Inl TypeError"
    by simp
  from set_filters_throw [OF this, of base_refresh] run show ?thesis
    by (simp add: display_data_def example_store_def)
qed

text \<open>
  C10, amended. A filter built from the empty list rejects every report, whatever its
  variant. For a mapping that holds such a filter, \<^verbatim>\<open>applyFilters\<close> returns the empty list
  whenever it returns, and it returns when no test throws on a report of the dataset; the
  setter then leaves an empty display dataset. The empty mapping gives the whole dataset.
\<close>

theorem empty_state_rejects:
  "IssuesFilter_new (JArr i []) = Inr (IssuesFilter [])
   \<and> ParkingDurationFilter_new (JArr i []) = Inr (ParkingDurationFilter [])
   \<and> DateRangeFilter_new (JArr i []) = Inr (DateRangeFilter [])
   \<and> WeekDayPeriodFilter_new (JArr i []) = Inr (WeekDayPeriodFilter [])
   \<and> test L (IssuesFilter []) r = Inr False
   \<and> test L (ParkingDurationFilter []) r = Inr False
   \<and> test L (DateRangeFilter []) r = Inr False
   \<and> test L (WeekDayPeriodFilter []) r = Inr False
   \<and> ((k, f) \<in> set F
        \<and> f \<in> {IssuesFilter [], ParkingDurationFilter [], DateRangeFilter [], WeekDayPeriodFilter []}
        \<longrightarrow> (applyFilters L st F = Inr res \<longrightarrow> res = [])
            \<and> ((\<forall>p \<in> set F. \<forall>r \<in> set (response_data st). \<exists>b. test L (snd p) r = Inr b)
                 \<longrightarrow> applyFilters L st F = Inr []
                     \<and> (cells h a = F \<longrightarrow> display_data (store (set_filters L R h a st)) = [])))
   \<and> applyFilters L st [] = Inr (response_data st)
   \<and> display_data (store (set_filters L R (h\<lparr>cells := (cells h)(a := [])\<rparr>) a st)) = response_data st"
proof -
  have empty: "test L g r' = Inr False"
    if "g \<in> {IssuesFilter [], ParkingDurationFilter [], DateRangeFilter [], WeekDayPeriodFilter []}"
    for g r'
    using that by (auto simp: array_includes_def list_ex_iff)
  have none: "res' = []"
    if "(k, f) \<in> set F"
      and "f \<in> {IssuesFilter [], ParkingDurationFilter [], DateRangeFilter [], WeekDayPeriodFilter []}"
      and "applyFilters L st F = Inr res'" for res'
  proof -
    have "\<not> (\<forall>p \<in> set F. test L (snd p) r' = Inr True)" for r'
      using that(1,2) empty [of f r'] by force
    then show ?thesis using applyFilters_Inr [OF that(3)] by simp
  qed
  have returns: "applyFilters L st F = Inr []"
    if "(k, f) \<in> set F"
      and "f \<in> {IssuesFilter [], ParkingDurationFilter [], DateRangeFilter [], WeekDayPeriodFilter []}"
      and "\<forall>p \<in> set F. \<forall>r \<in> set (response_data st). \<exists>b. test L (snd p) r = Inr b"
    using applyFilters_total [OF that(3)] none [OF that(1,2)] by auto
  have setter: "display_data (store (set_filters L R h a st)) = []"
    if "applyFilters L st F = Inr []" "cells h a = F"
    using set_filters_return [of L st h a "[]" R] that by (simp add: display_data_def)
  have full: "applyFilters L st [] = Inr (response_data st)"
    by (simp add: applyFilters_def object_entries_def)
  have full_setter:
    "display_data (store (set_filters L R (h\<lparr>cells := (cells h)(a := [])\<rparr>) a st)) = response_data st"
    using set_filters_return [of L st "h\<lparr>cells := (cells h)(a := [])\<rparr>" a "response_data st" R] full
    by (simp add: display_data_def)
  have ctor: "IssuesFilter_new (JArr i []) = Inr (IssuesFilter [])"
    "ParkingDurationFilter_new (JArr i []) = Inr (ParkingDurationFilter [])"
    "DateRangeFilter_new (JArr i []) = Inr (DateRangeFilter [])"
    "WeekDayPeriodFilter_new (JArr i []) = Inr (WeekDayPeriodFilter [])"
    by (simp_all add: IssuesFilter_new_def ParkingDurationFilter_new_def DateRangeFilter_new_def
        WeekDayPeriodFilter_new_def)
  have tests: "test L (IssuesFilter []) r = Inr False" "test L (ParkingDurationFilter []) r = Inr False"
    "test L (DateRangeFilter []) r = Inr False" "test L (WeekDayPeriodFilter []) r = Inr False"
    by (simp_all add: array_includes_def list_ex_iff)
  show ?thesis
    using ctor tests full full_setter none returns setter by blast
qed

text \<open>
  One report; the store's mapping holds an issues filter with no issue, and the setter
  leaves an empty display dataset.
\<close>

theorem empty_state_rejects_witness:
  "applyFilters example_luxon
     (example_store [example_report 1 ''Sat, 06 Jan 2024 09:22:06 GMT'' ''hours'' [''full'']])
     [(''issues'', IssuesFilter [])] = Inr []
   \<and> display_data (store (set_filters example_luxon base_refresh
        \<lparr>cells = (\<lambda>a. [(''issues'', IssuesFilter [])]), next_free = 1\<rparr> 0
        (example_store [example_report 1 ''Sat, 06 Jan 2024 09:22:06 GMT'' ''hours'' [''full'']])))
     = []"
proof -
  let ?st = "example_store [example_report 1 ''Sat, 06 Jan 2024 09:22:06 GMT'' ''hours'' [''full'']]"
  let ?F = "[(''issues'', IssuesFilter [])]"
  let ?h = "\<lparr>cells = (\<lambda>a. ?F), next_free = 1\<rparr>"
  have mem: "(''issues'', IssuesFilter []) \<in> set ?F
     \<and> IssuesFilter [] \<in> {IssuesFilter [], ParkingDurationFilter [], DateRangeFilter [], WeekDayPeriodFilter []}"
    by simp
  have returns: "\<forall>p \<in> set ?F. \<forall>r \<in> set (response_data ?st). \<exists>b. test example_luxon (snd p) r = Inr b"
    by simp
  have cell: "cells ?h 0 = ?F" by simp
  show ?thesis
    using empty_state_rejects
      [of 0 example_luxon "example_report 1 ''Sat, 06 Jan 2024 09:22:06 GMT'' ''hours'' [''full'']"
          "''issues''" "IssuesFilter []" ?F ?st "[]" ?h 0 base_refresh]
      mem returns cell
    by blast
qed

section \<open>The component registry\<close>

lemma key_examples:
  "elementIdToComponentKey ''issue-chart'' = ''issue_chart''"
  "elementIdToComponentKey ''issue_chart'' = ''issue_chart''"
  "elementIdToComponentKey ''map'' = ''map''"
  "elementIdToComponentKey ''1'' = ''1''"
  "elementIdToComponentKey ''date-range-chart'' = ''date_range-chart''"
  by (simp_all add: elementIdToComponentKey_def)


lemma registerComponent_components:
  "components (snd (registerComponent c st)) = object_set (component_key c) c (components st)"
  by (simp add: registerComponent_def component_key_def Let_def)

lemma map_of_object_set:
  "k \<noteq> ''__proto__'' \<Longrightarrow> map_of (object_set k v ob) = (map_of ob)(k \<mapsto> v)"
  by (simp add: object_set_def update_conv')

text \<open>
  C3, as stated, fails: \<^verbatim>\<open>issue-chart\<close> and \<^verbatim>\<open>issue_chart\<close> are distinct root identifiers
  with the same key, and the registry holds one entry after both registrations, for the
  second component.
\<close>

theorem registerComponent_collision:
  "root_id \<lparr>root_id = ''issue-chart'', obj_id = 1\<rparr> \<noteq> root_id \<lparr>root_id = ''issue_chart'', obj_id = 2\<rparr>
   \<and> components (snd (registerComponent \<lparr>root_id = ''issue_chart'', obj_id = 2\<rparr>
         (snd (registerComponent \<lparr>root_id = ''issue-chart'', obj_id = 1\<rparr> (example_store [])))))
     = [(''issue_chart'', \<lparr>root_id = ''issue_chart'', obj_id = 2\<rparr>)]"
  by (simp add: registerComponent_def Let_def key_examples object_set_def example_store_def)

text \<open>
  C3, amended. Two components whose keys (the root identifier with its first hyphen
  replaced by an underscore) are distinct, neither key being \<^verbatim>\<open>__proto__\<close>, have an entry
  each after both registrations; on an empty registry these are the only entries, in the
  order of registration.
\<close>

theorem registerComponent_distinct_keys:
  assumes "component_key c1 \<noteq> component_key c2"
    and "component_key c1 \<noteq> ''__proto__''" and "component_key c2 \<noteq> ''__proto__''"
  shows "map_of (components (snd (registerComponent c2 (snd (registerComponent c1 st)))))
           (component_key c1) = Some c1
       \<and> map_of (components (snd (registerComponent c2 (snd (registerComponent c1 st)))))
           (component_key c2) = Some c2
       \<and> (components st = [] \<longrightarrow>
            components (snd (registerComponent c2 (snd (registerComponent c1 st))))
              = [(component_key c1, c1), (component_key c2, c2)])"
  using assms
  by (simp add: registerComponent_components map_of_object_set) (simp add: object_set_def)

text \<open>
  Registering \<^verbatim>\<open>issue-chart\<close> and \<^verbatim>\<open>map\<close> on an empty store.
\<close>

theorem registerComponent_distinct_keys_witness:
  "components (snd (registerComponent \<lparr>root_id = ''map'', obj_id = 2\<rparr>
         (snd (registerComponent \<lparr>root_id = ''issue-chart'', obj_id = 1\<rparr> (example_store [])))))
     = [(''issue_chart'', \<lparr>root_id = ''issue-chart'', obj_id = 1\<rparr>),
        (''map'', \<lparr>root_id = ''map'', obj_id = 2\<rparr>)]"
  using registerComponent_distinct_keys
    [of "\<lparr>root_id = ''issue-chart'', obj_id = 1\<rparr>" "\<lparr>root_id = ''map'', obj_id = 2\<rparr>"
        "example_store []"]
  by (simp add: component_key_def key_examples example_store_def)

section \<open>Assigning the filters\<close>












text \<open>
  C2, as stated, fails: the read accessor returns the address of the store's own filter
  mapping. On a new store, assigning the property \<^verbatim>\<open>issues\<close> on the object the accessor
  returned changes the mapping the store holds from empty to one filter.
\<close>

theorem get_filters_alias:
  "cells (property_assign
            (get_filters (fst (SharedState_new \<lparr>cells = (\<lambda>a. []), next_free = 0\<rparr> [])))
            ''issues'' (IssuesFilter [])
            (snd (SharedState_new \<lparr>cells = (\<lambda>a. []), next_free = 0\<rparr> [])))
         (priv_filters (fst (SharedState_new \<lparr>cells = (\<lambda>a. []), next_free = 0\<rparr> [])))
     = [(''issues'', IssuesFilter [])]
   \<and> cells (snd (SharedState_new \<lparr>cells = (\<lambda>a. []), next_free = 0\<rparr> []))
         (priv_filters (fst (SharedState_new \<lparr>cells = (\<lambda>a. []), next_free = 0\<rparr> [])))
     = []"
  by (simp add: SharedState_new_def get_filters_def property_assign_def object_set_def)

text \<open>
  C2, amended. The read accessor returns the store's own mapping, so an assignment on
  the returned object is an assignment on the store's mapping. Of the store's operations,
  the setter alone changes which mapping the store refers to: registering a component and
  setting the router leave the reference as it was.
\<close>

theorem filters_reference:
  "get_filters st = priv_filters st
   \<and> cells (property_assign (get_filters st) k v h) (priv_filters st)
       = object_set k v (cells h (priv_filters st))
   \<and> priv_filters (store (set_filters L R h f st)) = f
   \<and> priv_filters (snd (registerComponent c st)) = priv_filters st
   \<and> priv_filters (set_router ro st) = priv_filters st"
  by (simp add: get_filters_def property_assign_def set_filters_def Let_def registerComponent_def
      set_router_def split: sum.splits prod.splits)

section \<open>Equality of filter states\<close>











end
